theory Spec2Isabelle
  imports Main
begin

section \<open>Data model of the conversation controller (src/client/pages/index.tsx)\<close>

text \<open>
  JavaScript strings are modelled as \<open>string\<close>; every character stands for one code unit
  below 256. The component state is the tuple of \<open>useState\<close> cells of \<open>Index\<close>.
\<close>

datatype Role = User | Assistant

record StoryMessage =
  role :: Role
  content :: string

text \<open>
  \<open>interface Character\<close>. The field \<open>class\<close> is named \<open>char_class\<close> here, and
  \<open>story_progress\<close> (a JavaScript number the controller never inspects) is an integer.
\<close>

record Character =
  name :: "string option"
  char_class :: "string option"
  goals :: "string list"
  inventory :: "string list"
  relationships :: "(string \<times> string) list"
  story_progress :: int
  current_location :: "string option"
  active_quests :: "string list"
  completed_quests :: "string list"

record State =
  messages :: "StoryMessage list"
  inputText :: string
  isLoading :: bool
  error :: "string option"
  sessionId :: "string option"
  character :: "Character option"

text \<open>The initial values handed to \<open>useState\<close> (lines 22 to 27).\<close>

definition initial_state :: State where
  "initial_state =
     \<lparr>messages = [], inputText = [], isLoading = False, error = None,
      sessionId = None, character = None\<rparr>"

subsection \<open>The HTTP exchange\<close>

text \<open>The JSON body of the POST request: \<open>{prompt, session_id}\<close>.\<close>

record Request =
  prompt :: string
  session_id :: "string option"

text \<open>
  The parsed response body \<open>data\<close>, with the three properties the component reads, typed
  as the response contract types them (strings and a \<open>Character\<close> object). An absent (or
  \<open>null\<close>) property is \<open>None\<close>.
\<close>

record Data =
  generated_text :: "string option"
  data_session_id :: "string option"
  data_character :: "Character option"

text \<open>
  A value caught by \<open>catch (err)\<close>: either an instance of \<open>Error\<close> with its message, or
  anything else.
\<close>

datatype Thrown = Error string | NonError

text \<open>
  The value \<open>await response.json()\<close> yields. Reading a property of \<open>null\<close> throws a
  \<open>TypeError\<close>, whose message depends on the engine and is carried along here; any other
  value can be read, and one that is not an object has none of the three properties.
\<close>

datatype Body = Null string | Object Data

text \<open>
  What \<open>await fetch(...)\<close> yields: the promise rejects, or it resolves to a response
  with a status and a body; \<open>json\<close> is the result of \<open>await response.json()\<close>, which
  may itself throw.
\<close>

record Response =
  status :: nat
  json :: "Thrown + Body"

datatype FetchOutcome = Rejected Thrown | Resolved Response

text \<open>\<open>response.ok\<close>: the status is in the range 200 to 299.\<close>

definition ok :: "Response \<Rightarrow> bool" where
  "ok r = (200 \<le> status r \<and> status r \<le> 299)"

text \<open>The decimal rendering of a number inside a template literal.\<close>

definition digit_char :: "nat \<Rightarrow> char" where
  "digit_char d = char_of (48 + d)"

function string_of_nat :: "nat \<Rightarrow> string" where
  "string_of_nat n =
     (if n < 10 then [digit_char n]
      else string_of_nat (n div 10) @ [digit_char (n mod 10)])"
  by pat_completeness auto
termination
  by (relation "measure id") auto

declare string_of_nat.simps [simp del]

text \<open>
  \<open>String.prototype.trim\<close> removes white space and line terminators from both ends;
  below code unit 256 these are TAB, LF, VT, FF, CR, SPACE and NBSP.
\<close>

definition is_whitespace :: "char \<Rightarrow> bool" where
  "is_whitespace c =
     (c \<in> set [CHR 0x09, CHR 0x0A, CHR 0x0B, CHR 0x0C, CHR 0x0D, CHR 0x20, CHR 0xA0])"

definition trim :: "string \<Rightarrow> string" where
  "trim s = rev (dropWhile is_whitespace (rev (dropWhile is_whitespace s)))"

text \<open>
  Lines 53 to 57 and 115 to 119, the same in both operations: a rejected fetch throws,
  a response that is not ok throws the HTTP error, otherwise the body is parsed.
\<close>

fun await_data :: "FetchOutcome \<Rightarrow> Thrown + Body" where
  "await_data (Rejected e) = Inl e"
| "await_data (Resolved r) =
     (if \<not> ok r then Inl (Error (''HTTP error! status: '' @ string_of_nat (status r)))
      else json r)"

text \<open>\<open>err instanceof Error ? err.message : fallback\<close>.\<close>

fun error_message :: "string \<Rightarrow> Thrown \<Rightarrow> string" where
  "error_message fallback (Error m) = m"
| "error_message fallback NonError = fallback"

section \<open>Operation \<open>initializeStory\<close> (lines 38 to 82)\<close>

text \<open>The part that runs before the first \<open>await\<close>: two state writes and the request.\<close>

definition initializeStory_sync :: "State \<Rightarrow> State \<times> Request" where
  "initializeStory_sync s =
     (s\<lparr>isLoading := True, error := None\<rparr>,
      \<lparr>prompt = ''I want to start a new adventure story.'', session_id = sessionId s\<rparr>)"

text \<open>
  The body of \<open>try\<close> after the fetch. The tests \<open>if (data.generated_text)\<close> and
  \<open>if (data.session_id)\<close> are truthiness tests: an empty string fails them. On a
  \<open>null\<close> body the first of them throws.
\<close>

definition initializeStory_try :: "State \<Rightarrow> FetchOutcome \<Rightarrow> Thrown + State" where
  "initializeStory_try s out =
     (case await_data out of
        Inl e \<Rightarrow> Inl e
      | Inr (Null m) \<Rightarrow> Inl (Error m)
      | Inr (Object d) \<Rightarrow>
          (case generated_text d of
             None \<Rightarrow> Inl (Error ''No generated text in response'')
           | Some t \<Rightarrow>
               if t = [] then Inl (Error ''No generated text in response'')
               else
                 let s1 = s\<lparr>messages := [\<lparr>role = Assistant, content = t\<rparr>]\<rparr>;
                     s2 = (case data_session_id d of
                             None \<Rightarrow> s1
                           | Some sid \<Rightarrow> if sid = [] then s1 else s1\<lparr>sessionId := Some sid\<rparr>);
                     s3 = (case data_character d of
                             None \<Rightarrow> s2
                           | Some c \<Rightarrow> s2\<lparr>character := Some c\<rparr>)
                 in Inr s3))"

text \<open>The continuation after the fetch settles: \<open>try\<close>, \<open>catch\<close>, \<open>finally\<close>.\<close>

definition initializeStory_resume :: "State \<Rightarrow> FetchOutcome \<Rightarrow> State" where
  "initializeStory_resume s out =
     (case initializeStory_try s out of
        Inr s' \<Rightarrow> s'
      | Inl e \<Rightarrow> s\<lparr>error := Some (error_message ''Failed to start story'' e)\<rparr>)
     \<lparr>isLoading := False\<rparr>"

text \<open>The whole operation, given how its fetch settles; the request is returned too.\<close>

definition initializeStory :: "State \<Rightarrow> FetchOutcome \<Rightarrow> State \<times> Request" where
  "initializeStory s out =
     (case initializeStory_sync s of (s1, req) \<Rightarrow> (initializeStory_resume s1 out, req))"

section \<open>Operation \<open>handleSubmit\<close> (lines 88 to 150)\<close>

definition apology :: StoryMessage where
  "apology =
     \<lparr>role = Assistant,
      content = ''I apologize, but I encountered an error. Please try again.''\<rparr>"

text \<open>
  The part that runs before the \<open>await\<close>: the guard of line 90, then the state writes
  and the request. \<open>None\<close> is the early return.
\<close>

definition handleSubmit_sync :: "State \<Rightarrow> (State \<times> Request) option" where
  "handleSubmit_sync s =
     (if trim (inputText s) = [] \<or> isLoading s then None
      else Some
        (s\<lparr>isLoading := True, error := None, inputText := [],
           messages := messages s @ [\<lparr>role = User, content = inputText s\<rparr>]\<rparr>,
         \<lparr>prompt = inputText s, session_id = sessionId s\<rparr>))"

definition handleSubmit_try :: "State \<Rightarrow> FetchOutcome \<Rightarrow> Thrown + State" where
  "handleSubmit_try s out =
     (case await_data out of
        Inl e \<Rightarrow> Inl e
      | Inr (Null m) \<Rightarrow> Inl (Error m)
      | Inr (Object d) \<Rightarrow>
          (case generated_text d of
             None \<Rightarrow> Inl (Error ''No generated text in response'')
           | Some t \<Rightarrow>
               if t = [] then Inl (Error ''No generated text in response'')
               else
                 let s1 = s\<lparr>messages := messages s @ [\<lparr>role = Assistant, content = t\<rparr>]\<rparr>;
                     s2 = (case data_character d of
                             None \<Rightarrow> s1
                           | Some c \<Rightarrow> s1\<lparr>character := Some c\<rparr>)
                 in Inr s2))"

definition handleSubmit_resume :: "State \<Rightarrow> FetchOutcome \<Rightarrow> State" where
  "handleSubmit_resume s out =
     (case handleSubmit_try s out of
        Inr s' \<Rightarrow> s'
      | Inl e \<Rightarrow>
          s\<lparr>error := Some (error_message ''Failed to send message'' e),
            messages := messages s @ [apology]\<rparr>)
     \<lparr>isLoading := False\<rparr>"

text \<open>
  The whole operation, given how its fetch would settle. The second component is the
  request sent, \<open>None\<close> when no network call is made.
\<close>

definition handleSubmit :: "State \<Rightarrow> FetchOutcome \<Rightarrow> State \<times> Request option" where
  "handleSubmit s out =
     (case handleSubmit_sync s of
        None \<Rightarrow> (s, None)
      | Some (s1, req) \<Rightarrow> (handleSubmit_resume s1 out, Some req))"

section \<open>Sequences of user actions\<close>

text \<open>
  One user action: the text \<open>t\<close> is typed into the input (\<open>onChange\<close>, line 206, writes
  \<open>inputText\<close>) and the form is submitted; \<open>out\<close> is how the fetch settles if one is made.
\<close>

definition submit :: "State \<Rightarrow> string \<Rightarrow> FetchOutcome \<Rightarrow> State \<times> Request option" where
  "submit s t out = handleSubmit (s\<lparr>inputText := t\<rparr>) out"

text \<open>A sequence of such actions, each run to completion; the requests are collected.\<close>

fun run_submits :: "State \<Rightarrow> (string \<times> FetchOutcome) list \<Rightarrow> State \<times> Request option list" where
  "run_submits s [] = (s, [])"
| "run_submits s ((t, out) # cs) =
     (case submit s t out of
        (s1, r) \<Rightarrow> (case run_submits s1 cs of (s2, rs) \<Rightarrow> (s2, r # rs)))"

section \<open>Renders and the values the handlers read\<close>

text \<open>
  The constants \<open>inputText\<close>, \<open>isLoading\<close> and \<open>sessionId\<close> that a handler reads are those
  of the render that created it; a setter writes the cell and schedules a render, and until
  that render the handlers keep reading the old values. A view is the pair of the values
  of the last render and of the cells. Updates in function form (\<open>setMessages((prev) => ...)\<close>)
  read the cell.
\<close>

record View =
  rendered :: State
  cells :: State


text \<open>
  Lines 39 to 51 and 89 to 113 on a view: the parts of the two operations before their
  \<open>await\<close>, reading from the last render \<open>r\<close> and writing the cells \<open>c\<close>.
\<close>

definition initializeStory_closure :: "State \<Rightarrow> State \<Rightarrow> State \<times> Request" where
  "initializeStory_closure r c =
     (c\<lparr>isLoading := True, error := None\<rparr>,
      \<lparr>prompt = ''I want to start a new adventure story.'', session_id = sessionId r\<rparr>)"

definition handleSubmit_closure :: "State \<Rightarrow> State \<Rightarrow> (State \<times> Request) option" where
  "handleSubmit_closure r c =
     (if trim (inputText r) = [] \<or> isLoading r then None
      else Some
        (c\<lparr>isLoading := True, error := None, inputText := [],
           messages := messages c @ [\<lparr>role = User, content = inputText r\<rparr>]\<rparr>,
         \<lparr>prompt = inputText r, session_id = sessionId r\<rparr>))"

text \<open>
  What can happen while no continuation of a fetch runs: the input changes (\<open>onChange\<close>
  writes the cell), the form is submitted (\<open>onSubmit\<close>, of which the part before the
  \<open>await\<close> runs), the component renders again, or the mount effect calls
  \<open>initializeStory\<close>. The requests sent are collected in order.
\<close>

datatype Event = Type string | Submit | Render | Start

fun ui_events :: "View \<Rightarrow> Event list \<Rightarrow> View \<times> Request list" where
  "ui_events v [] = (v, [])"
| "ui_events v (Type t # es) = ui_events (v\<lparr>cells := (cells v)\<lparr>inputText := t\<rparr>\<rparr>) es"
| "ui_events v (Render # es) = ui_events (v\<lparr>rendered := cells v\<rparr>) es"
| "ui_events v (Start # es) =
     (case initializeStory_closure (rendered v) (cells v) of
        (c1, req) \<Rightarrow>
          (case ui_events (v\<lparr>cells := c1\<rparr>) es of (v2, rs) \<Rightarrow> (v2, req # rs)))"
| "ui_events v (Submit # es) =
     (case handleSubmit_closure (rendered v) (cells v) of
        None \<Rightarrow> ui_events v es
      | Some (c1, req) \<Rightarrow>
          (case ui_events (v\<lparr>cells := c1\<rparr>) es of (v2, rs) \<Rightarrow> (v2, req # rs)))"

section \<open>Classifying how a fetch settles\<close>

text \<open>
  The outcomes on which both operations take their success path: the response is ok,
  its body parses and is not \<open>null\<close>, and \<open>generated_text\<close> is a non-empty string. \<open>success\<close> returns that
  text and the body; every other outcome is a failure.
\<close>

fun success :: "FetchOutcome \<Rightarrow> (string \<times> Data) option" where
  "success (Rejected e) = None"
| "success (Resolved r) =
     (if ok r then
        (case json r of
           Inl e \<Rightarrow> None
         | Inr (Null m) \<Rightarrow> None
         | Inr (Object d) \<Rightarrow>
             (case generated_text d of
                None \<Rightarrow> None
              | Some t \<Rightarrow> if t = [] then None else Some (t, d)))
      else None)"

text \<open>
  The two turns a completed submission adds to the transcript: the user turn, then the
  returned text on the success path and the apology otherwise.
\<close>

definition turns_of :: "string \<times> FetchOutcome \<Rightarrow> StoryMessage list" where
  "turns_of c =
     (case c of (t, out) \<Rightarrow>
        (case success out of
           None \<Rightarrow> [\<lparr>role = User, content = t\<rparr>, apology]
         | Some (g, d) \<Rightarrow> [\<lparr>role = User, content = t\<rparr>, \<lparr>role = Assistant, content = g\<rparr>]))"


section \<open>Example exchanges\<close>

text \<open>The responses of the scenarios A, B and D, and the state scenario A ends in.\<close>

definition scenarioA_response :: FetchOutcome where
  "scenarioA_response =
     Resolved \<lparr>status = 200,
       json = Inr (Object \<lparr>generated_text = Some ''You wake in a forest.'',
                   data_session_id = Some ''s1'', data_character = None\<rparr>)\<rparr>"

definition rin :: Character where
  "rin = \<lparr>name = Some ''Rin'', char_class = Some ''Rogue'', goals = [], inventory = [],
          relationships = [], story_progress = 1, current_location = Some ''Forest'',
          active_quests = [], completed_quests = []\<rparr>"

definition scenarioB_response :: FetchOutcome where
  "scenarioB_response =
     Resolved \<lparr>status = 200,
       json = Inr (Object \<lparr>generated_text = Some ''You see a path.'',
                   data_session_id = None, data_character = Some rin\<rparr>)\<rparr>"

definition http_500_response :: FetchOutcome where
  "http_500_response = Resolved \<lparr>status = 500, json = Inl NonError\<rparr>"

definition scenarioA_state :: State where
  "scenarioA_state = fst (initializeStory initial_state scenarioA_response)"

text \<open>Bootstrap responses whose session token is \<open>abc\<close>, another token, and empty.\<close>

definition abc_response :: FetchOutcome where
  "abc_response =
     Resolved \<lparr>status = 200,
       json = Inr (Object \<lparr>generated_text = Some ''Once upon a time.'',
                   data_session_id = Some ''abc'', data_character = None\<rparr>)\<rparr>"

definition other_session_response :: FetchOutcome where
  "other_session_response =
     Resolved \<lparr>status = 200,
       json = Inr (Object \<lparr>generated_text = Some ''You see a path.'',
                   data_session_id = Some ''xyz'', data_character = None\<rparr>)\<rparr>"

definition empty_session_response :: FetchOutcome where
  "empty_session_response =
     Resolved \<lparr>status = 200,
       json = Inr (Object \<lparr>generated_text = Some ''You wake in a forest.'',
                   data_session_id = Some [], data_character = None\<rparr>)\<rparr>"

text \<open>The two character snapshots of property P5, and responses that carry one.\<close>

definition bob_with_goal :: Character where
  "bob_with_goal = \<lparr>name = Some ''Bob'', char_class = None, goals = [''find sword''],
     inventory = [], relationships = [], story_progress = 0, current_location = None,
     active_quests = [], completed_quests = []\<rparr>"

definition bob_no_goals :: Character where
  "bob_no_goals = \<lparr>name = Some ''Bob'', char_class = None, goals = [],
     inventory = [], relationships = [], story_progress = 0, current_location = None,
     active_quests = [], completed_quests = []\<rparr>"

definition with_character :: "Character \<Rightarrow> FetchOutcome" where
  "with_character c =
     Resolved \<lparr>status = 200,
       json = Inr (Object \<lparr>generated_text = Some ''You see a path.'',
                   data_session_id = None, data_character = Some c\<rparr>)\<rparr>"


definition no_text_with_character :: "Character \<Rightarrow> FetchOutcome" where
  "no_text_with_character c =
     Resolved \<lparr>status = 200,
       json = Inr (Object \<lparr>generated_text = None,
                   data_session_id = None, data_character = Some c\<rparr>)\<rparr>"

section \<open>What each operation does, path by path\<close>

subsection \<open>The decimal rendering of the status\<close>





lemma trim_examples:
  "trim ''look around'' \<noteq> []" "trim ''fight'' \<noteq> []" "trim ''hello'' \<noteq> []"
  "trim ''go'' \<noteq> []" "trim ''   '' = []"
  by (simp_all add: trim_def is_whitespace_def)

subsection \<open>The two paths of each \<open>try\<close> block\<close>

lemma handleSubmit_try_success:
  assumes "success out = Some (g, d)"
  shows "handleSubmit_try s out =
     Inr (s\<lparr>messages := messages s @ [\<lparr>role = Assistant, content = g\<rparr>],
            character := (case data_character d of None \<Rightarrow> character s | Some c \<Rightarrow> Some c)\<rparr>)"
  using assms
  by (cases out) (auto simp: handleSubmit_try_def Let_def split: if_splits sum.splits option.splits Body.splits)

lemma handleSubmit_try_failure:
  assumes "success out = None"
  shows "\<exists>e. handleSubmit_try s out = Inl e"
  using assms
  by (cases out) (auto simp: handleSubmit_try_def Let_def split: if_splits sum.splits option.splits Body.splits)

lemma initializeStory_try_success:
  assumes "success out = Some (g, d)"
  shows "initializeStory_try s out =
     Inr (s\<lparr>messages := [\<lparr>role = Assistant, content = g\<rparr>],
            sessionId := (case data_session_id d of None \<Rightarrow> sessionId s
                          | Some sid \<Rightarrow> if sid = [] then sessionId s else Some sid),
            character := (case data_character d of None \<Rightarrow> character s | Some c \<Rightarrow> Some c)\<rparr>)"
  using assms
  by (cases out) (auto simp: initializeStory_try_def Let_def split: if_splits sum.splits option.splits Body.splits)


lemma initializeStory_success:
  assumes "success out = Some (g, d)"
  shows "initializeStory s out =
     (s\<lparr>isLoading := False, error := None,
        messages := [\<lparr>role = Assistant, content = g\<rparr>],
        sessionId := (case data_session_id d of None \<Rightarrow> sessionId s
                      | Some sid \<Rightarrow> if sid = [] then sessionId s else Some sid),
        character := (case data_character d of None \<Rightarrow> character s | Some c \<Rightarrow> Some c)\<rparr>,
      \<lparr>prompt = ''I want to start a new adventure story.'', session_id = sessionId s\<rparr>)"
  by (cases s)
    (simp add: initializeStory_def initializeStory_sync_def initializeStory_resume_def
      initializeStory_try_success [OF assms] split: option.splits)


lemma scenarioA_state_eq:
  "scenarioA_state =
     \<lparr>messages = [\<lparr>role = Assistant, content = ''You wake in a forest.''\<rparr>],
      inputText = [], isLoading = False, error = None,
      sessionId = Some ''s1'', character = None\<rparr>"
  by (simp add: scenarioA_state_def scenarioA_response_def initial_state_def ok_def
      initializeStory_def initializeStory_sync_def initializeStory_resume_def
      initializeStory_try_def)

lemma abc_state_eq:
  "fst (initializeStory initial_state abc_response) =
     \<lparr>messages = [\<lparr>role = Assistant, content = ''Once upon a time.''\<rparr>],
      inputText = [], isLoading = False, error = None,
      sessionId = Some ''abc'', character = None\<rparr>"
  by (simp add: abc_response_def initial_state_def ok_def
      initializeStory_def initializeStory_sync_def initializeStory_resume_def
      initializeStory_try_def)

subsection \<open>One submission\<close>

lemma handleSubmit_resume_success:
  assumes "success out = Some (g, d)"
  shows "handleSubmit_resume s out =
     s\<lparr>messages := messages s @ [\<lparr>role = Assistant, content = g\<rparr>],
       character := (case data_character d of None \<Rightarrow> character s | Some c \<Rightarrow> Some c),
       isLoading := False\<rparr>"
  by (simp add: handleSubmit_resume_def handleSubmit_try_success [OF assms])

lemma handleSubmit_resume_failure:
  assumes "success out = None"
  shows "\<exists>e. handleSubmit_try s out = Inl e \<and> handleSubmit_resume s out =
     s\<lparr>error := Some (error_message ''Failed to send message'' e),
       messages := messages s @ [apology], isLoading := False\<rparr>"
  using handleSubmit_try_failure [OF assms, of s]
  by (auto simp: handleSubmit_resume_def)

lemma submit_success:
  assumes "\<not> isLoading s" "trim t \<noteq> []" "success out = Some (g, d)"
  shows "submit s t out =
     (s\<lparr>inputText := [], isLoading := False, error := None,
        messages := messages s @ [\<lparr>role = User, content = t\<rparr>, \<lparr>role = Assistant, content = g\<rparr>],
        character := (case data_character d of None \<Rightarrow> character s | Some c \<Rightarrow> Some c)\<rparr>,
      Some \<lparr>prompt = t, session_id = sessionId s\<rparr>)"
  using assms
  by (cases s)
    (simp add: submit_def handleSubmit_def handleSubmit_sync_def handleSubmit_resume_success
      split: option.splits)

lemma submit_failure:
  assumes "\<not> isLoading s" "trim t \<noteq> []" "success out = None"
  shows "\<exists>msg. submit s t out =
     (s\<lparr>inputText := [], isLoading := False, error := Some msg,
        messages := messages s @ [\<lparr>role = User, content = t\<rparr>, apology]\<rparr>,
      Some \<lparr>prompt = t, session_id = sessionId s\<rparr>)"
proof -
  let ?s1 = "s\<lparr>inputText := t\<rparr>\<lparr>isLoading := True, error := None, inputText := [],
           messages := messages s @ [\<lparr>role = User, content = t\<rparr>]\<rparr>"
  obtain e where "handleSubmit_resume ?s1 out =
     ?s1\<lparr>error := Some (error_message ''Failed to send message'' e),
       messages := messages ?s1 @ [apology], isLoading := False\<rparr>"
    using handleSubmit_resume_failure [OF assms(3), of ?s1] by blast
  then show ?thesis
    using assms(1,2)
    by (cases s) (simp add: submit_def handleSubmit_def handleSubmit_sync_def)
qed

lemma submit_blocked:
  assumes "isLoading s \<or> trim t = []"
  shows "submit s t out = (s\<lparr>inputText := t\<rparr>, None)"
  using assms by (auto simp: submit_def handleSubmit_def handleSubmit_sync_def)

lemma submit_sessionId: "sessionId (fst (submit s t out)) = sessionId s"
proof (cases "isLoading s \<or> trim t = []")
  case True
  then show ?thesis by (simp add: submit_blocked)
next
  case False
  then have g: "\<not> isLoading s" "trim t \<noteq> []" by simp_all
  show ?thesis
  proof (cases "success out")
    case None
    then show ?thesis using submit_failure [OF g None] by auto
  next
    case (Some p)
    then show ?thesis using submit_success [OF g, of out "fst p" "snd p"] by simp
  qed
qed

lemma submit_request:
  "snd (submit s t out) = Some req \<Longrightarrow> req = \<lparr>prompt = t, session_id = sessionId s\<rparr>"
  by (auto simp: submit_def handleSubmit_def handleSubmit_sync_def split: if_splits)

lemma submit_turns:
  assumes "\<not> isLoading s" "trim t \<noteq> []"
  shows "messages (fst (submit s t out)) = messages s @ turns_of (t, out)
         \<and> \<not> isLoading (fst (submit s t out))"
proof (cases "success out")
  case None
  then show ?thesis using submit_failure [OF assms None] by (auto simp: turns_of_def)
next
  case (Some p)
  then show ?thesis
    using submit_success [OF assms, of out "fst p" "snd p"]
    by (simp add: turns_of_def case_prod_beta)
qed

subsection \<open>Runs of submissions and of events\<close>

lemma run_submits_Cons:
  "run_submits s ((t, out) # cs) =
     (fst (run_submits (fst (submit s t out)) cs),
      snd (submit s t out) # snd (run_submits (fst (submit s t out)) cs))"
  by (simp split: prod.splits)

lemma run_submits_turns:
  assumes "\<not> isLoading s" "\<forall>c \<in> set cs. trim (fst c) \<noteq> []"
  shows "messages (fst (run_submits s cs)) = messages s @ concat (map turns_of cs)
         \<and> \<not> isLoading (fst (run_submits s cs))"
  using assms
proof (induction cs arbitrary: s)
  case Nil
  then show ?case by simp
next
  case (Cons c cs)
  obtain t out where c: "c = (t, out)" by (cases c)
  from Cons.prems c have t: "trim t \<noteq> []" by simp
  note step = submit_turns [OF Cons.prems(1) t, of out]
  from Cons.prems have rest: "\<forall>c \<in> set cs. trim (fst c) \<noteq> []" by simp
  from Cons.IH [OF conjunct2 [OF step] rest] step
  show ?case by (simp add: c run_submits_Cons del: run_submits.simps(2))
qed

lemma length_turns_of: "length (turns_of c) = 2"
  by (cases c) (simp add: turns_of_def split: option.splits)

lemma length_concat_turns: "length (concat (map turns_of cs)) = 2 * length cs"
  by (induction cs) (simp_all add: length_turns_of)

lemma run_submits_session:
  "sessionId (fst (run_submits s cs)) = sessionId s
   \<and> (\<forall>req. Some req \<in> set (snd (run_submits s cs)) \<longrightarrow> session_id req = sessionId s)"
proof (induction cs arbitrary: s)
  case Nil
  then show ?case by simp
next
  case (Cons c cs)
  obtain t out where c: "c = (t, out)" by (cases c)
  obtain s1 r where s1: "submit s t out = (s1, r)" by (cases "submit s t out")
  have sid: "sessionId s1 = sessionId s" using submit_sessionId [of s t out] s1 by simp
  have r: "\<And>req. r = Some req \<Longrightarrow> session_id req = sessionId s"
    using submit_request [of s t out] s1 by auto
  from Cons.IH [of s1] sid r show ?case
    by (auto simp: c s1 split: prod.splits)
qed

lemma run_submits_prefix:
  assumes "\<not> isLoading s" "\<forall>c \<in> set cs. trim (fst c) \<noteq> []" "k \<le> length cs"
  shows "messages (fst (run_submits s (take k cs))) =
         take (length (messages s) + 2 * k) (messages (fst (run_submits s cs)))"
proof -
  have sub: "\<forall>c \<in> set (take k cs). trim (fst c) \<noteq> []"
    using assms(2) by (auto dest: in_set_takeD)
  have pre: "messages (fst (run_submits s (take k cs))) =
             messages s @ concat (map turns_of (take k cs))"
    using run_submits_turns [OF assms(1) sub] by simp
  have len: "length (messages s @ concat (map turns_of (take k cs))) =
             length (messages s) + 2 * k"
    using assms(3) by (simp add: length_concat_turns)
  have "messages (fst (run_submits s cs)) =
        messages s @ concat (map turns_of (take k cs @ drop k cs))"
    using run_submits_turns [OF assms(1,2)] by simp
  also have "\<dots> = (messages s @ concat (map turns_of (take k cs)))
                  @ concat (map turns_of (drop k cs))"
    by (simp del: append_take_drop_id)
  finally have "take (length (messages s) + 2 * k) (messages (fst (run_submits s cs))) =
                messages s @ concat (map turns_of (take k cs))"
    using len by (metis append_eq_conv_conj)
  with pre show ?thesis by simp
qed

lemma closure_after_render:
  "handleSubmit_closure s s = handleSubmit_sync s"
  "initializeStory_closure s s = initializeStory_sync s"
  by (simp_all add: handleSubmit_closure_def handleSubmit_sync_def
      initializeStory_closure_def initializeStory_sync_def)

lemma ui_events_rendered_busy:
  assumes "isLoading (rendered v)" "isLoading (cells v)" "Start \<notin> set es"
  shows "snd (ui_events v es) = [] \<and> messages (cells (fst (ui_events v es))) = messages (cells v)"
  using assms
proof (induction v es rule: ui_events.induct)
  case (1 v)
  then show ?case by simp
next
  case (2 v t es)
  then show ?case by simp
next
  case (3 v es)
  then show ?case by simp
next
  case (4 v es)
  then show ?case by simp
next
  case (5 v es)
  then show ?case by (simp add: handleSubmit_closure_def)
qed

subsection \<open>The decimal digits of a number\<close>







section \<open>Guarded submissions leave everything as it was\<close>

text \<open>
  Claim C5. Calling \<open>handleSubmit\<close> while the busy flag is set, or with an input that is
  empty after trimming, sends no request and returns the state unchanged (so transcript,
  session, character, error and busy flag are all as before).
\<close>

theorem handleSubmit_guard_noop:
  assumes "isLoading s \<or> trim (inputText s) = []"
  shows "handleSubmit s out = (s, None)"
  using assms by (auto simp: handleSubmit_def handleSubmit_sync_def)

theorem handleSubmit_guard_noop_witness:
  "trim (inputText (initial_state\<lparr>inputText := ''   ''\<rparr>)) = []
   \<and> handleSubmit (initial_state\<lparr>inputText := ''   ''\<rparr>) (Rejected NonError)
       = (initial_state\<lparr>inputText := ''   ''\<rparr>, None)
   \<and> isLoading (initial_state\<lparr>inputText := ''look'', isLoading := True\<rparr>)
   \<and> handleSubmit (initial_state\<lparr>inputText := ''look'', isLoading := True\<rparr>) (Rejected NonError)
       = (initial_state\<lparr>inputText := ''look'', isLoading := True\<rparr>, None)"
proof -
  have blank: "trim (inputText (initial_state\<lparr>inputText := ''   ''\<rparr>)) = []"
    by (simp add: trim_def is_whitespace_def)
  have busy: "isLoading (initial_state\<lparr>inputText := ''look'', isLoading := True\<rparr>)"
    by simp
  show ?thesis
    using blank busy
      handleSubmit_guard_noop [of "initial_state\<lparr>inputText := ''   ''\<rparr>" "Rejected NonError"]
      handleSubmit_guard_noop [of "initial_state\<lparr>inputText := ''look'', isLoading := True\<rparr>"
        "Rejected NonError"]
    by simp
qed

section \<open>The transcript under successful submissions\<close>

text \<open>
  Claim C1. After a successful bootstrap, a sequence of N submissions that each pass the
  guard and each settle on the success path leaves a transcript of length (bootstrap
  turns) + 2N, the bootstrap leaving one turn. Each submission appends one user turn with
  the submitted text followed by one assistant turn with the returned \<open>generated_text\<close>,
  and the transcript after the first k submissions is a prefix of the final one: no turn
  is changed or removed.
\<close>

theorem transcript_after_successful_submits:
  assumes "success out0 = Some (g0, d0)"
    and "\<forall>c \<in> set cs. trim (fst c) \<noteq> [] \<and> success (snd c) \<noteq> None"
  shows "let s0 = fst (initializeStory initial_state out0);
             sN = fst (run_submits s0 cs)
         in messages s0 = [\<lparr>role = Assistant, content = g0\<rparr>]
          \<and> length (messages sN) = length (messages s0) + 2 * length cs
          \<and> messages sN = messages s0 @ concat (map turns_of cs)
          \<and> (\<forall>c \<in> set cs. \<exists>g d. success (snd c) = Some (g, d)
                \<and> turns_of c = [\<lparr>role = User, content = fst c\<rparr>,
                                 \<lparr>role = Assistant, content = g\<rparr>])
          \<and> (\<forall>k \<le> length cs. messages (fst (run_submits s0 (take k cs))) =
                take (length (messages s0) + 2 * k) (messages sN))"
proof -
  let ?s0 = "fst (initializeStory initial_state out0)"
  have idle: "\<not> isLoading ?s0" and boot: "messages ?s0 = [\<lparr>role = Assistant, content = g0\<rparr>]"
    by (simp_all add: initializeStory_success [OF assms(1)])
  have texts: "\<forall>c \<in> set cs. trim (fst c) \<noteq> []"
    using assms(2) by simp
  note run = run_submits_turns [OF idle texts]
  have each: "\<forall>c \<in> set cs. \<exists>g d. success (snd c) = Some (g, d)
                \<and> turns_of c = [\<lparr>role = User, content = fst c\<rparr>,
                                 \<lparr>role = Assistant, content = g\<rparr>]"
    using assms(2) by (auto simp: turns_of_def split: prod.splits)
  have pref: "\<forall>k \<le> length cs. messages (fst (run_submits ?s0 (take k cs))) =
                take (length (messages ?s0) + 2 * k) (messages (fst (run_submits ?s0 cs)))"
    using run_submits_prefix [OF idle texts] by blast
  show ?thesis
    unfolding Let_def using boot run each pref by (simp add: length_concat_turns)
qed

theorem transcript_after_successful_submits_witness:
  "messages (fst (run_submits (fst (initializeStory initial_state scenarioA_response))
       [(''look around'', scenarioB_response)])) =
     [\<lparr>role = Assistant, content = ''You wake in a forest.''\<rparr>,
      \<lparr>role = User, content = ''look around''\<rparr>,
      \<lparr>role = Assistant, content = ''You see a path.''\<rparr>]
   \<and> length (messages (fst (run_submits (fst (initializeStory initial_state scenarioA_response))
       [(''look around'', scenarioB_response)]))) = 1 + 2 * 1"
proof -
  have a: "success scenarioA_response =
      Some (''You wake in a forest.'',
        \<lparr>generated_text = Some ''You wake in a forest.'',
         data_session_id = Some ''s1'', data_character = None\<rparr>)"
    by (simp add: scenarioA_response_def ok_def)
  have b: "\<forall>c \<in> set [(''look around'', scenarioB_response)].
             trim (fst c) \<noteq> [] \<and> success (snd c) \<noteq> None"
    by (simp add: scenarioB_response_def ok_def trim_def is_whitespace_def)
  show ?thesis
    using transcript_after_successful_submits [OF a b]
    by (simp add: Let_def turns_of_def scenarioB_response_def ok_def)
qed

section \<open>Failing submissions\<close>

text \<open>
  Claim C2. When a submission passes the guard and its fetch fails, the transcript is the
  old one, then the user turn with the submitted text, then the assistant turn with the
  fixed apology text; the error slot is set. A rejected fetch, a status outside 200 to 299
  and a body without \<open>generated_text\<close> are all failures.
\<close>

theorem failed_submit_keeps_user_turn:
  assumes "\<not> isLoading s" "trim t \<noteq> []" "success out = None"
  shows "messages (fst (submit s t out)) =
           messages s @
             [\<lparr>role = User, content = t\<rparr>,
              \<lparr>role = Assistant,
               content = ''I apologize, but I encountered an error. Please try again.''\<rparr>]
         \<and> error (fst (submit s t out)) \<noteq> None
         \<and> success (Rejected e) = None
         \<and> (\<not> ok r \<longrightarrow> success (Resolved r) = None)
         \<and> (json r = Inr (Object d) \<and> generated_text d = None \<longrightarrow> success (Resolved r) = None)"
  using submit_failure [OF assms] by (auto simp: apology_def)

theorem failed_submit_keeps_user_turn_witness:
  "messages (fst (submit scenarioA_state ''fight'' http_500_response)) =
     [\<lparr>role = Assistant, content = ''You wake in a forest.''\<rparr>,
      \<lparr>role = User, content = ''fight''\<rparr>,
      \<lparr>role = Assistant,
       content = ''I apologize, but I encountered an error. Please try again.''\<rparr>]
   \<and> error (fst (submit scenarioA_state ''fight'' http_500_response)) \<noteq> None"
proof -
  have "\<not> isLoading scenarioA_state" by (simp add: scenarioA_state_eq)
  moreover have "success http_500_response = None"
    by (simp add: http_500_response_def ok_def)
  ultimately show ?thesis
    using failed_submit_keeps_user_turn [of scenarioA_state "''fight''" http_500_response]
      trim_examples(2)
    by (simp add: scenarioA_state_eq)
qed

text \<open>
  Claim C10. A submission whose fetch fails leaves the stored character as it was, also
  when the response is ok, lacks \<open>generated_text\<close> and carries a character object.
\<close>

theorem failed_submit_keeps_character:
  assumes "success out = None"
  shows "character (fst (handleSubmit s out)) = character s
       \<and> character (fst (submit s t out)) = character s"
proof -
  have sub: "character (fst (submit s' t' out)) = character s'" for s' t'
  proof (cases "isLoading s' \<or> trim t' = []")
    case True
    then show ?thesis by (simp add: submit_blocked)
  next
    case False
    then have "\<not> isLoading s'" "trim t' \<noteq> []" by simp_all
    from submit_failure [OF this assms] show ?thesis by auto
  qed
  have "handleSubmit s out = submit s (inputText s) out"
    by (simp add: submit_def)
  with sub show ?thesis by simp
qed

theorem failed_submit_keeps_character_witness:
  "success (no_text_with_character bob_no_goals) = None
   \<and> character (fst (submit (scenarioA_state\<lparr>character := Some bob_with_goal\<rparr>) ''go''
        (no_text_with_character bob_no_goals))) = Some bob_with_goal
   \<and> messages (fst (submit (scenarioA_state\<lparr>character := Some bob_with_goal\<rparr>) ''go''
        (no_text_with_character bob_no_goals))) =
       [\<lparr>role = Assistant, content = ''You wake in a forest.''\<rparr>,
        \<lparr>role = User, content = ''go''\<rparr>, apology]"
proof -
  have f: "success (no_text_with_character bob_no_goals) = None"
    by (simp add: no_text_with_character_def ok_def)
  have "messages (fst (submit (scenarioA_state\<lparr>character := Some bob_with_goal\<rparr>) ''go''
        (no_text_with_character bob_no_goals))) =
       [\<lparr>role = Assistant, content = ''You wake in a forest.''\<rparr>,
        \<lparr>role = User, content = ''go''\<rparr>, apology]"
    by (simp add: scenarioA_state_eq submit_def handleSubmit_def handleSubmit_sync_def
        handleSubmit_resume_def handleSubmit_try_def no_text_with_character_def ok_def
        trim_def is_whitespace_def)
  then show ?thesis
    using f failed_submit_keeps_character [OF f,
        of "scenarioA_state\<lparr>character := Some bob_with_goal\<rparr>" "''go''"]
    by simp
qed




section \<open>The session token\<close>

text \<open>
  Claim C3. Once the bootstrap response has set the session token, every request sent by
  a later submission carries that token, and no submission changes the stored token,
  whatever its response holds, a \<open>session_id\<close> of its own included.
\<close>

theorem session_sticky:
  assumes "success out0 = Some (g0, d0)" "data_session_id d0 = Some sid" "sid \<noteq> []"
  shows "let s0 = fst (initializeStory initial_state out0) in
           sessionId s0 = Some sid
         \<and> sessionId (fst (run_submits s0 cs)) = Some sid
         \<and> (\<forall>req. Some req \<in> set (snd (run_submits s0 cs)) \<longrightarrow> session_id req = Some sid)"
proof -
  let ?s0 = "fst (initializeStory initial_state out0)"
  have "sessionId ?s0 = Some sid"
    using assms(2,3) by (simp add: initializeStory_success [OF assms(1)])
  then show ?thesis
    using run_submits_session [of ?s0 cs] by (simp add: Let_def)
qed

theorem session_sticky_witness:
  "snd (run_submits (fst (initializeStory initial_state abc_response))
         [(''look around'', other_session_response), (''   '', scenarioB_response),
          (''fight'', http_500_response)]) =
     [Some \<lparr>prompt = ''look around'', session_id = Some ''abc''\<rparr>, None,
      Some \<lparr>prompt = ''fight'', session_id = Some ''abc''\<rparr>]
   \<and> (sessionId (fst (initializeStory initial_state abc_response)) = Some ''abc''
      \<and> sessionId (fst (run_submits (fst (initializeStory initial_state abc_response))
         [(''look around'', other_session_response), (''   '', scenarioB_response),
          (''fight'', http_500_response)])) = Some ''abc'')"
proof -
  have a: "success abc_response =
      Some (''Once upon a time.'',
        \<lparr>generated_text = Some ''Once upon a time.'',
         data_session_id = Some ''abc'', data_character = None\<rparr>)"
    by (simp add: abc_response_def ok_def)
  have b: "data_session_id \<lparr>generated_text = Some ''Once upon a time.'',
         data_session_id = Some ''abc'', data_character = None\<rparr> = Some ''abc''"
    by simp
  have c: "''abc'' \<noteq> []" by simp
  have sent: "snd (run_submits (fst (initializeStory initial_state abc_response))
         [(''look around'', other_session_response), (''   '', scenarioB_response),
          (''fight'', http_500_response)]) =
     [Some \<lparr>prompt = ''look around'', session_id = Some ''abc''\<rparr>, None,
      Some \<lparr>prompt = ''fight'', session_id = Some ''abc''\<rparr>]"
    by (simp add: abc_state_eq run_submits_Cons submit_def handleSubmit_def
        handleSubmit_sync_def handleSubmit_resume_def handleSubmit_try_def
        other_session_response_def http_500_response_def scenarioB_response_def ok_def
        trim_def is_whitespace_def
        del: run_submits.simps(2))
  note sticky = session_sticky [OF a b c, unfolded Let_def]
  from sticky have "sessionId (fst (initializeStory initial_state abc_response)) = Some ''abc''"
    by (rule conjunct1)
  moreover from sticky
  have "sessionId (fst (run_submits (fst (initializeStory initial_state abc_response))
         [(''look around'', other_session_response), (''   '', scenarioB_response),
          (''fight'', http_500_response)])) = Some ''abc''"
    by blast
  ultimately show ?thesis using sent by blast
qed

section \<open>The busy flag around the bootstrap\<close>


section \<open>The bootstrap\<close>

text \<open>
  Claim C6 as stated fails: a successful bootstrap response that provides the empty string
  as \<open>session_id\<close> leaves the session token unset.
\<close>

theorem empty_session_id_counterexample:
  "success empty_session_response =
     Some (''You wake in a forest.'',
       \<lparr>generated_text = Some ''You wake in a forest.'',
        data_session_id = Some [], data_character = None\<rparr>)
   \<and> messages (fst (initializeStory initial_state empty_session_response)) =
       [\<lparr>role = Assistant, content = ''You wake in a forest.''\<rparr>]
   \<and> sessionId (fst (initializeStory initial_state empty_session_response)) = None"
  by (simp add: empty_session_response_def initial_state_def ok_def
      initializeStory_def initializeStory_sync_def initializeStory_resume_def
      initializeStory_try_def)

text \<open>
  Claim C6, amended. On a successful bootstrap from the initial state the transcript is the
  single assistant turn with the returned \<open>generated_text\<close>, the session token is the
  response's \<open>session_id\<close> when that is a non-empty string and stays unset otherwise, the
  character is the response's character when it has one, busy and error are clear, and the
  request carried the fixed prompt with a null \<open>session_id\<close>.
\<close>

theorem bootstrap_success:
  assumes "success out = Some (g, d)"
  shows "initializeStory initial_state out =
     (\<lparr>messages = [\<lparr>role = Assistant, content = g\<rparr>],
       inputText = [], isLoading = False, error = None,
       sessionId = (case data_session_id d of
                      None \<Rightarrow> None
                    | Some sid \<Rightarrow> if sid = [] then None else Some sid),
       character = data_character d\<rparr>,
      \<lparr>prompt = ''I want to start a new adventure story.'', session_id = None\<rparr>)"
  by (simp add: initializeStory_success [OF assms] initial_state_def split: option.splits)

theorem bootstrap_success_witness:
  "initializeStory initial_state scenarioA_response =
     (\<lparr>messages = [\<lparr>role = Assistant, content = ''You wake in a forest.''\<rparr>],
       inputText = [], isLoading = False, error = None,
       sessionId = Some ''s1'', character = None\<rparr>,
      \<lparr>prompt = ''I want to start a new adventure story.'', session_id = None\<rparr>)"
proof -
  have a: "success scenarioA_response =
      Some (''You wake in a forest.'',
        \<lparr>generated_text = Some ''You wake in a forest.'',
         data_session_id = Some ''s1'', data_character = None\<rparr>)"
    by (simp add: scenarioA_response_def ok_def)
  show ?thesis using bootstrap_success [OF a] by simp
qed



section \<open>The character snapshot\<close>

text \<open>
  Claim C8 as stated fails: an ok response without \<open>generated_text\<close> that contains a
  character object does not replace the stored character.
\<close>

theorem character_kept_on_failure_counterexample:
  "character (fst (submit (scenarioA_state\<lparr>character := Some bob_with_goal\<rparr>) ''look around''
      (no_text_with_character bob_no_goals))) = Some bob_with_goal
   \<and> Some bob_with_goal \<noteq> Some bob_no_goals"
  by (simp add: scenarioA_state_eq submit_def handleSubmit_def handleSubmit_sync_def
      handleSubmit_resume_def handleSubmit_try_def no_text_with_character_def ok_def
      trim_def is_whitespace_def bob_with_goal_def bob_no_goals_def)

text \<open>
  Claim C8, amended. Whenever a response on the success path (ok, with a non-empty
  \<open>generated_text\<close>) contains a character object, the stored character becomes that
  object as a whole, whatever was stored before; so its goals are the goals of the
  response, empty when those are empty. This holds for the bootstrap and for a
  submission that passes the guard.
\<close>

theorem character_replaced_on_success:
  assumes "success out = Some (g, d)" "data_character d = Some c"
  shows "character (fst (initializeStory s out)) = Some c
       \<and> (\<not> isLoading s \<and> trim t \<noteq> [] \<longrightarrow>
            character (fst (submit s t out)) = Some c
          \<and> map_option goals (character (fst (submit s t out))) = Some (goals c))"
  using assms(2)
  by (auto simp: initializeStory_success [OF assms(1)] submit_success [OF _ _ assms(1)])

theorem character_replaced_on_success_witness:
  "character (fst (submit (fst (submit scenarioA_state ''look around'' (with_character bob_with_goal)))
      ''go'' (with_character bob_no_goals))) = Some bob_no_goals
   \<and> character (fst (submit scenarioA_state ''look around'' (with_character bob_with_goal))) =
       Some bob_with_goal
   \<and> goals bob_no_goals = []"
proof -
  let ?s1 = "fst (submit scenarioA_state ''look around'' (with_character bob_with_goal))"
  have s1: "?s1 =
     \<lparr>messages = [\<lparr>role = Assistant, content = ''You wake in a forest.''\<rparr>,
                  \<lparr>role = User, content = ''look around''\<rparr>,
                  \<lparr>role = Assistant, content = ''You see a path.''\<rparr>],
      inputText = [], isLoading = False, error = None,
      sessionId = Some ''s1'', character = Some bob_with_goal\<rparr>"
    by (simp add: scenarioA_state_eq submit_def handleSubmit_def handleSubmit_sync_def
        handleSubmit_resume_def handleSubmit_try_def with_character_def ok_def
        trim_def is_whitespace_def)
  have a: "success (with_character bob_no_goals) =
      Some (''You see a path.'', \<lparr>generated_text = Some ''You see a path.'',
                   data_session_id = None, data_character = Some bob_no_goals\<rparr>)"
    by (simp add: with_character_def ok_def)
  have idle: "\<not> isLoading ?s1" by (simp add: s1)
  show ?thesis
    using character_replaced_on_success [OF a, of bob_no_goals ?s1 "''go''"] idle
      trim_examples(4) s1
    by (simp add: bob_no_goals_def)
qed

end
